theory Spec2Isabelle
  imports Main
begin

section \<open>Data model\<close>

text \<open>
  The rows of the two tables the adoption workflow touches. The model classes live in
  \<^verbatim>\<open>shelter/models.py\<close>, which is not among the sources; the fields below are the ones
  the views, the admin configuration and the tests name. Statuses are the strings the
  views compare against. Timestamps are natural numbers (a reading of the clock).
\<close>

record pet =
  pet_name :: string
  pet_slug :: string
  pet_breed :: string
  pet_status :: string

record application =
  app_user :: "nat option"
  first_name :: "string option"
  last_name :: "string option"
  email :: "string option"
  phone :: "string option"
  address :: "string option"
  app_pet :: nat
  housing_type :: "string option"
  own_or_rent :: "string option"
  landlord_approval :: bool
  household_adults :: "string + int"
  household_children :: "string + int"
  has_other_pets :: bool
  other_pets_description :: string
  previous_pet_experience :: "string option"
  reason_for_adoption :: "string option"
  app_status :: string
  submitted_at :: nat
  reviewed_at :: "nat option"
  app_notes :: string

text \<open>
  The persistent store: both tables keyed by primary key, and the next key the
  application table hands out.
\<close>

record db =
  pets :: "nat \<rightharpoonup> pet"
  applications :: "nat \<rightharpoonup> application"
  next_application_id :: nat

section \<open>Requests, responses, messages\<close>

text \<open>
  What the views read of a request: \<^verbatim>\<open>request.method\<close> (the field \<open>req_method\<close>),
  \<^verbatim>\<open>request.POST\<close>, the referer header and \<^verbatim>\<open>request.user\<close>.
\<close>

record auth_user =
  is_authenticated :: bool
  is_staff :: bool
  is_superuser :: bool
  user_pk :: nat

record request =
  req_method :: string
  POST :: "string \<rightharpoonup> string"
  HTTP_REFERER :: "string option"
  user :: auth_user

text \<open>The named routes the views redirect to; \<open>LOGIN_URL\<close> is the configured login page.\<close>

datatype route =
    LOGIN_URL
  | site_login
  | route_pets
  | route_adoption_application
  | route_user_applications
  | route_pet_detail nat string
  | route_admin_application_detail nat
  | route_admin_applications

datatype response = Redirect route | Render string

text \<open>Exceptions that leave a view and abort the request.\<close>

datatype error = Http404 | DoesNotExist | ValueError

text \<open>
  The flash messages the views queue with \<^verbatim>\<open>messages.success\<close> and
  \<^verbatim>\<open>messages.error\<close>. \<open>StatusUpdated s\<close> is the success message that interpolates
  the display label of status \<open>s\<close> (for it \<open>text_of\<close> gives the part before the label);
  the others carry a fixed text.
\<close>

datatype flash =
    StatusUpdated string
  | InvalidStatus
  | NotesUpdated
  | PetNotFoundOrUnavailable
  | SelectValidPet
  | ApplicationSubmitted

datatype level = success | error_level

fun level_of :: "flash \<Rightarrow> level" where
  "level_of (StatusUpdated s) = success"
| "level_of InvalidStatus = error_level"
| "level_of NotesUpdated = success"
| "level_of PetNotFoundOrUnavailable = error_level"
| "level_of SelectValidPet = error_level"
| "level_of ApplicationSubmitted = success"

fun text_of :: "flash \<Rightarrow> string" where
  "text_of (StatusUpdated s) = ''Application status updated to ''"
| "text_of InvalidStatus = ''Invalid status''"
| "text_of NotesUpdated = ''Notes updated successfully''"
| "text_of PetNotFoundOrUnavailable = ''Pet not found or no longer available.''"
| "text_of SelectValidPet = ''Please select a valid pet.''"
| "text_of ApplicationSubmitted =
     ''Your application has been submitted successfully! We will review it and contact you soon.''"

text \<open>
  What a request leaves behind: the store, the messages it queued, and either the
  response or the exception that escaped the view.
\<close>

record outcome =
  out_db :: db
  out_messages :: "flash list"
  out_result :: "error + response"

section \<open>Access guards\<close>

text \<open>\<^verbatim>\<open>shelter/views/utils.py\<close>\<close>

definition is_admin_user :: "auth_user \<Rightarrow> bool" where
  "is_admin_user u = (is_authenticated u \<and> (is_staff u \<or> is_superuser u))"

text \<open>
  The two decorators: the view runs when the test on \<open>request.user\<close> passes, otherwise
  the request is redirected to the login page and the view is not entered.
\<close>

definition user_passes_test ::
  "(auth_user \<Rightarrow> bool) \<Rightarrow> route \<Rightarrow> (request \<Rightarrow> db \<Rightarrow> outcome) \<Rightarrow> request \<Rightarrow> db \<Rightarrow> outcome" where
  "user_passes_test test_func login_url view request d =
     (if test_func (user request) then view request d
      else \<lparr>out_db = d, out_messages = [], out_result = Inr (Redirect login_url)\<rparr>)"

definition login_required ::
  "route \<Rightarrow> (request \<Rightarrow> db \<Rightarrow> outcome) \<Rightarrow> request \<Rightarrow> db \<Rightarrow> outcome" where
  "login_required login_url view = user_passes_test is_authenticated login_url view"

section \<open>Store operations\<close>

text \<open>
  Modelled from the spec: \<^verbatim>\<open>Model.save()\<close> of Pet and AdoptionApplication
  (\<^verbatim>\<open>shelter/models.py\<close> is missing). The spec describes a store with atomic single-row
  updates; saving an instance writes its fields to the row with its primary key.
\<close>

definition Pet_save :: "db \<Rightarrow> nat \<Rightarrow> pet \<Rightarrow> db" where
  "Pet_save d pk p = d\<lparr>pets := (pets d)(pk \<mapsto> p)\<rparr>"

definition AdoptionApplication_save :: "db \<Rightarrow> nat \<Rightarrow> application \<Rightarrow> db" where
  "AdoptionApplication_save d pk a = d\<lparr>applications := (applications d)(pk \<mapsto> a)\<rparr>"

text \<open>Python's \<^verbatim>\<open>needle in haystack\<close> on strings: a contiguous occurrence.\<close>

fun starts_with :: "string \<Rightarrow> string \<Rightarrow> bool" where
  "starts_with [] ys = True"
| "starts_with (x # xs) [] = False"
| "starts_with (x # xs) (y # ys) = (x = y \<and> starts_with xs ys)"

fun contains :: "string \<Rightarrow> string \<Rightarrow> bool" where
  "contains needle [] = (needle = [])"
| "contains needle (y # ys) = (starts_with needle (y # ys) \<or> contains needle ys)"

text \<open>\<^verbatim>\<open>str(next_url)\<close>: a missing header is \<^verbatim>\<open>None\<close>, printed as \<^verbatim>\<open>'None'\<close>.\<close>

definition str_of :: "string option \<Rightarrow> string" where
  "str_of v = (case v of None \<Rightarrow> ''None'' | Some s \<Rightarrow> s)"

section \<open>Staff views (\<^verbatim>\<open>shelter/views/admin_views.py\<close>)\<close>

definition valid_statuses :: "string list" where
  "valid_statuses = [''pending'', ''approved'', ''rejected'', ''completed'']"

text \<open>The tail of the status view: where the staff member is sent back to.\<close>

definition status_redirect :: "request \<Rightarrow> nat \<Rightarrow> response" where
  "status_redirect request application_id =
     (let next_url = HTTP_REFERER request in
      if contains ''admin_application_detail'' (str_of next_url)
      then Redirect (route_admin_application_detail application_id)
      else Redirect route_admin_applications)"

text \<open>
  The cascade of the status view, after the application row has been saved:
  \<^verbatim>\<open>application.pet\<close> follows the foreign key into the store (and raises when no such
  row exists), the pet's status is set, and the pet is saved.
\<close>

definition set_pet_status :: "db \<Rightarrow> nat \<Rightarrow> string \<Rightarrow> error + db" where
  "set_pet_status d pet_pk s =
     (case pets d pet_pk of
        None \<Rightarrow> Inl DoesNotExist
      | Some p \<Rightarrow> Inr (Pet_save d pet_pk (p\<lparr>pet_status := s\<rparr>)))"

definition update_application_status_body :: "nat \<Rightarrow> nat \<Rightarrow> request \<Rightarrow> db \<Rightarrow> outcome" where
  "update_application_status_body now application_id request d =
     (if req_method request = ''POST'' then
        (case applications d application_id of
           None \<Rightarrow> \<lparr>out_db = d, out_messages = [], out_result = Inl Http404\<rparr>
         | Some application \<Rightarrow>
            (case POST request ''status'' of
               None \<Rightarrow>
                 \<lparr>out_db = d, out_messages = [InvalidStatus],
                  out_result = Inr (status_redirect request application_id)\<rparr>
             | Some new_status \<Rightarrow>
                 if new_status \<in> set valid_statuses then
                   (let old_status = app_status application;
                        application' = application\<lparr>app_status := new_status,
                                                    reviewed_at := Some now\<rparr>;
                        d1 = AdoptionApplication_save d application_id application';
                        cascade =
                          (if new_status = ''completed''
                           then set_pet_status d1 (app_pet application') ''adopted''
                           else if old_status = ''completed'' \<and> new_status \<noteq> ''completed''
                           then set_pet_status d1 (app_pet application') ''available''
                           else Inr d1)
                    in case cascade of
                         Inl e \<Rightarrow> \<lparr>out_db = d1, out_messages = [], out_result = Inl e\<rparr>
                       | Inr d2 \<Rightarrow>
                           \<lparr>out_db = d2, out_messages = [StatusUpdated new_status],
                            out_result = Inr (status_redirect request application_id)\<rparr>)
                 else
                   \<lparr>out_db = d, out_messages = [InvalidStatus],
                    out_result = Inr (status_redirect request application_id)\<rparr>))
      else \<lparr>out_db = d, out_messages = [],
            out_result = Inr (status_redirect request application_id)\<rparr>)"

definition admin_update_application_status :: "nat \<Rightarrow> nat \<Rightarrow> request \<Rightarrow> db \<Rightarrow> outcome" where
  "admin_update_application_status now application_id =
     login_required LOGIN_URL
       (user_passes_test is_admin_user LOGIN_URL
          (update_application_status_body now application_id))"

definition update_application_notes_body :: "nat \<Rightarrow> nat \<Rightarrow> request \<Rightarrow> db \<Rightarrow> outcome" where
  "update_application_notes_body now application_id request d =
     (if req_method request = ''POST'' then
        (case applications d application_id of
           None \<Rightarrow> \<lparr>out_db = d, out_messages = [], out_result = Inl Http404\<rparr>
         | Some application \<Rightarrow>
            (let notes = (case POST request ''notes'' of None \<Rightarrow> [] | Some t \<Rightarrow> t);
                 application' = application\<lparr>app_notes := notes, reviewed_at := Some now\<rparr>;
                 d1 = AdoptionApplication_save d application_id application'
             in \<lparr>out_db = d1, out_messages = [NotesUpdated],
                 out_result = Inr (Redirect (route_admin_application_detail application_id))\<rparr>))
      else \<lparr>out_db = d, out_messages = [],
            out_result = Inr (Redirect (route_admin_application_detail application_id))\<rparr>)"

definition admin_update_application_notes :: "nat \<Rightarrow> nat \<Rightarrow> request \<Rightarrow> db \<Rightarrow> outcome" where
  "admin_update_application_notes now application_id =
     login_required LOGIN_URL
       (user_passes_test is_admin_user LOGIN_URL
          (update_application_notes_body now application_id))"

section \<open>Applicant view (\<^verbatim>\<open>shelter/views/auth_views.py\<close>)\<close>

text \<open>\<^verbatim>\<open>Pet.objects.filter(pk=..., status='available').first()\<close>: the row and its key.\<close>

definition Pet_available_first :: "db \<Rightarrow> nat \<Rightarrow> (nat \<times> pet) option" where
  "Pet_available_first d pk =
     (case pets d pk of
        None \<Rightarrow> None
      | Some p \<Rightarrow> if pet_status p = ''available'' then Some (pk, p) else None)"

text \<open>
  Modelled from the spec: the field defaults of AdoptionApplication and
  \<^verbatim>\<open>AdoptionApplication.objects.create\<close> (\<^verbatim>\<open>shelter/models.py\<close> is missing). The spec
  says a new application has \<open>status = pending\<close>, \<open>submitted_at = now()\<close> and
  \<open>reviewed_at = null\<close>; the staff notes start empty. \<open>create\<close> takes the keyword
  arguments as an update of the default row, stores the row under a fresh key and
  returns that key. Column constraints of the missing schema are not part of the model.
\<close>

definition AdoptionApplication_defaults :: "nat \<Rightarrow> application" where
  "AdoptionApplication_defaults now =
     \<lparr>app_user = None, first_name = None, last_name = None, email = None, phone = None,
      address = None, app_pet = 0, housing_type = None, own_or_rent = None,
      landlord_approval = False, household_adults = Inr 1, household_children = Inr 0,
      has_other_pets = False, other_pets_description = [],
      previous_pet_experience = None, reason_for_adoption = None,
      app_status = ''pending'', submitted_at = now, reviewed_at = None, app_notes = []\<rparr>"

definition AdoptionApplication_create ::
  "db \<Rightarrow> nat \<Rightarrow> (application \<Rightarrow> application) \<Rightarrow> nat \<times> db" where
  "AdoptionApplication_create d now kwargs =
     (let pk = next_application_id d;
          row = kwargs (AdoptionApplication_defaults now)
      in (pk, d\<lparr>applications := (applications d)(pk \<mapsto> row),
                next_application_id := Suc pk\<rparr>))"

text \<open>\<^verbatim>\<open>request.POST.get(key, default)\<close> for the fields with a default.\<close>

definition POST_get_int :: "request \<Rightarrow> string \<Rightarrow> int \<Rightarrow> string + int" where
  "POST_get_int request key dflt = (case POST request key of None \<Rightarrow> Inr dflt | Some s \<Rightarrow> Inl s)"

definition POST_get_str :: "request \<Rightarrow> string \<Rightarrow> string \<Rightarrow> string" where
  "POST_get_str request key dflt = (case POST request key of None \<Rightarrow> dflt | Some s \<Rightarrow> s)"

text \<open>The keyword arguments the view passes to \<open>create\<close>.\<close>

definition application_kwargs ::
  "nat option \<Rightarrow> nat \<Rightarrow> request \<Rightarrow> application \<Rightarrow> application" where
  "application_kwargs usr pet_pk request row =
     row\<lparr>app_user := usr,
         first_name := POST request ''first_name'',
         last_name := POST request ''last_name'',
         email := POST request ''email'',
         phone := POST request ''phone'',
         address := POST request ''address'',
         app_pet := pet_pk,
         housing_type := POST request ''housing_type'',
         own_or_rent := POST request ''own_or_rent'',
         landlord_approval := (POST request ''landlord_approval'' = Some ''yes''),
         household_adults := POST_get_int request ''household_adults'' 1,
         household_children := POST_get_int request ''household_children'' 0,
         has_other_pets := (POST request ''has_other_pets'' = Some ''yes''),
         other_pets_description := POST_get_str request ''other_pets_description'' [],
         previous_pet_experience := POST request ''previous_pet_experience'',
         reason_for_adoption := POST request ''reason_for_adoption''\<rparr>"

text \<open>
  The pet of a POST when the URL named none: the posted \<^verbatim>\<open>pet_id\<close>, if it is a
  non-empty string. The store turns the posted string into a key; that conversion
  \<open>pk_of\<close> belongs to the framework and is a parameter here (\<open>None\<close>: the string is
  not a number and the lookup raises).
\<close>

definition posted_pet ::
  "(string \<Rightarrow> int option) \<Rightarrow> request \<Rightarrow> db \<Rightarrow> error + (nat \<times> pet) option" where
  "posted_pet pk_of request d =
     (case POST request ''pet_id'' of
        None \<Rightarrow> Inr None
      | Some pet_post_id \<Rightarrow>
          if pet_post_id \<noteq> [] then
            (case pk_of pet_post_id of
               None \<Rightarrow> Inl ValueError
             | Some k \<Rightarrow> Inr (if k < 0 then None else Pet_available_first d (nat k)))
          else Inr None)"

definition adoption_application_body ::
  "(string \<Rightarrow> int option) \<Rightarrow> nat \<Rightarrow> nat option \<Rightarrow> request \<Rightarrow> db \<Rightarrow> outcome" where
  "adoption_application_body pk_of now pet_id request d =
     (let pet_id_given = (case pet_id of None \<Rightarrow> False | Some k \<Rightarrow> k \<noteq> 0);
          pet = (case pet_id of
                   None \<Rightarrow> None
                 | Some k \<Rightarrow> if k \<noteq> 0 then Pet_available_first d k else None)
      in if pet_id_given \<and> pet = None then
           \<lparr>out_db = d, out_messages = [PetNotFoundOrUnavailable],
            out_result = Inr (Redirect route_pets)\<rparr>
         else if req_method request = ''POST'' then
           (let usr = (if is_authenticated (user request)
                       then Some (user_pk (user request)) else None);
                found = (case pet of None \<Rightarrow> posted_pet pk_of request d | Some p \<Rightarrow> Inr (Some p))
            in case found of
                 Inl e \<Rightarrow> \<lparr>out_db = d, out_messages = [], out_result = Inl e\<rparr>
               | Inr None \<Rightarrow>
                   \<lparr>out_db = d, out_messages = [SelectValidPet],
                    out_result = Inr (Redirect route_adoption_application)\<rparr>
               | Inr (Some (pet_pk, p)) \<Rightarrow>
                   (let (pk, d1) = AdoptionApplication_create d now
                                     (application_kwargs usr pet_pk request)
                    in \<lparr>out_db = d1, out_messages = [ApplicationSubmitted],
                        out_result =
                          Inr (if is_authenticated (user request)
                               then Redirect route_user_applications
                               else Redirect (route_pet_detail pet_pk (pet_slug p)))\<rparr>))
         else \<lparr>out_db = d, out_messages = [],
               out_result = Inr (Render ''shelter/adoption_application.html'')\<rparr>)"

definition adoption_application ::
  "(string \<Rightarrow> int option) \<Rightarrow> nat \<Rightarrow> nat option \<Rightarrow> request \<Rightarrow> db \<Rightarrow> outcome" where
  "adoption_application pk_of now pet_id =
     login_required site_login (adoption_application_body pk_of now pet_id)"

text \<open>
  A request names pet \<open>pid\<close> when the URL carries that key, or, when the URL carries none
  (or the key 0, which the view treats as absent), the posted \<^verbatim>\<open>pet_id\<close> is a non-empty
  string that the store reads as that key. These are the two ways the view picks its pet.
\<close>

definition names_pet :: "(string \<Rightarrow> int option) \<Rightarrow> nat option \<Rightarrow> request \<Rightarrow> nat \<Rightarrow> bool" where
  "names_pet pk_of pet_id request pid =
     (let posted = (case POST request ''pet_id'' of
                      None \<Rightarrow> False
                    | Some s \<Rightarrow> s \<noteq> [] \<and> pk_of s = Some (int pid))
      in case pet_id of
           None \<Rightarrow> posted
         | Some k \<Rightarrow> if k \<noteq> 0 then k = pid else posted)"

section \<open>Sequences of requests\<close>

text \<open>
  The three operations of the workflow as requests to the three views, each with the
  reading of the clock at which it is served; a run serves them in order on the store.
\<close>

datatype op =
    Submit nat "nat option" request
  | SetStatus nat nat request
  | SetNotes nat nat request

fun step :: "(string \<Rightarrow> int option) \<Rightarrow> db \<Rightarrow> op \<Rightarrow> db" where
  "step pk_of d (Submit now pet_id request) = out_db (adoption_application pk_of now pet_id request d)"
| "step pk_of d (SetStatus now application_id request) =
     out_db (admin_update_application_status now application_id request d)"
| "step pk_of d (SetNotes now application_id request) =
     out_db (admin_update_application_notes now application_id request d)"

definition run :: "(string \<Rightarrow> int option) \<Rightarrow> db \<Rightarrow> op list \<Rightarrow> db" where
  "run pk_of d ops = foldl (step pk_of) d ops"

section \<open>The pet rule\<close>









section \<open>Example data\<close>

definition luna :: pet where
  "luna = \<lparr>pet_name = ''Luna'', pet_slug = ''luna'', pet_breed = ''Tabby'', pet_status = ''available''\<rparr>"

definition rex :: pet where
  "rex = \<lparr>pet_name = ''Rex'', pet_slug = ''rex'', pet_breed = ''Beagle'', pet_status = ''adopted''\<rparr>"

definition staff :: auth_user where
  "staff = \<lparr>is_authenticated = True, is_staff = True, is_superuser = False, user_pk = 1\<rparr>"

definition adopter :: auth_user where
  "adopter = \<lparr>is_authenticated = True, is_staff = False, is_superuser = False, user_pk = 2\<rparr>"

definition anonymous :: auth_user where
  "anonymous = \<lparr>is_authenticated = False, is_staff = False, is_superuser = False, user_pk = 0\<rparr>"

definition application_for :: "nat \<Rightarrow> string \<Rightarrow> application" where
  "application_for pet_pk addr = (AdoptionApplication_defaults 5)\<lparr>app_pet := pet_pk, email := Some addr\<rparr>"

definition luna_db :: db where
  "luna_db = \<lparr>pets = [1 \<mapsto> luna],
              applications = [1 \<mapsto> application_for 1 ''ana@example.com'',
                              2 \<mapsto> application_for 1 ''bob@example.com''],
              next_application_id = 3\<rparr>"

definition shelter_db :: db where
  "shelter_db = \<lparr>pets = [1 \<mapsto> luna, 2 \<mapsto> rex],
              applications = [1 \<mapsto> (application_for 2 ''cy@example.com'')\<lparr>app_status := ''completed''\<rparr>],
              next_application_id = 2\<rparr>"

definition submit_request :: "auth_user \<Rightarrow> string \<Rightarrow> request" where
  "submit_request u addr =
     \<lparr>req_method = ''POST'', POST = [''first_name'' \<mapsto> ''Dee'', ''email'' \<mapsto> addr],
      HTTP_REFERER = None, user = u\<rparr>"

definition form_request :: "auth_user \<Rightarrow> string \<Rightarrow> string \<Rightarrow> request" where
  "form_request u addr pet_post_id =
     \<lparr>req_method = ''POST'', POST = [''email'' \<mapsto> addr, ''pet_id'' \<mapsto> pet_post_id],
      HTTP_REFERER = None, user = u\<rparr>"

definition example_pk_of :: "string \<Rightarrow> int option" where
  "example_pk_of s = (if s = ''1'' then Some 1 else if s = ''2'' then Some 2 else None)"

definition status_request :: "string \<Rightarrow> request" where
  "status_request s = \<lparr>req_method = ''POST'', POST = [''status'' \<mapsto> s], HTTP_REFERER = None, user = staff\<rparr>"

definition notes_request :: "string \<Rightarrow> request" where
  "notes_request t = \<lparr>req_method = ''POST'', POST = [''notes'' \<mapsto> t], HTTP_REFERER = None, user = staff\<rparr>"

definition get_request :: "auth_user \<Rightarrow> request" where
  "get_request u = \<lparr>req_method = ''GET'', POST = Map.empty, HTTP_REFERER = None, user = u\<rparr>"



lemmas example_defs = luna_def rex_def staff_def adopter_def anonymous_def application_for_def
  luna_db_def shelter_db_def submit_request_def status_request_def notes_request_def
  get_request_def AdoptionApplication_defaults_def example_pk_of_def


section \<open>The guards and the bodies of the views\<close>

lemma status_guard_pass:
  "is_admin_user (user request) \<Longrightarrow>
   admin_update_application_status now aid request d = update_application_status_body now aid request d"
  by (simp add: admin_update_application_status_def login_required_def user_passes_test_def is_admin_user_def)

lemma status_guard_fail:
  "\<not> is_admin_user (user request) \<Longrightarrow>
   admin_update_application_status now aid request d =
     \<lparr>out_db = d, out_messages = [], out_result = Inr (Redirect LOGIN_URL)\<rparr>"
  by (simp add: admin_update_application_status_def login_required_def user_passes_test_def is_admin_user_def)

lemma notes_guard_pass:
  "is_admin_user (user request) \<Longrightarrow>
   admin_update_application_notes now aid request d = update_application_notes_body now aid request d"
  by (simp add: admin_update_application_notes_def login_required_def user_passes_test_def is_admin_user_def)


lemma status_body_valid:
  assumes "req_method request = ''POST''" "applications d aid = Some A"
    "POST request ''status'' = Some s" "s \<in> set valid_statuses" "pets d (app_pet A) = Some P"
  shows "update_application_status_body now aid request d =
    \<lparr>out_db = d\<lparr>applications := (applications d)(aid \<mapsto> A\<lparr>app_status := s, reviewed_at := Some now\<rparr>),
               pets := (pets d)(app_pet A \<mapsto>
                  P\<lparr>pet_status := (if s = ''completed'' then ''adopted''
                                    else if app_status A = ''completed'' then ''available''
                                    else pet_status P)\<rparr>)\<rparr>,
     out_messages = [StatusUpdated s],
     out_result = Inr (status_redirect request aid)\<rparr>"
  using assms
  by (auto simp: update_application_status_body_def AdoptionApplication_save_def
      set_pet_status_def Pet_save_def Let_def map_upd_triv)

lemma adoption_guard_pass:
  "is_authenticated (user request) \<Longrightarrow>
   adoption_application pk_of now pet_id request d = adoption_application_body pk_of now pet_id request d"
  by (simp add: adoption_application_def login_required_def user_passes_test_def)

lemma adoption_guard_fail:
  "\<not> is_authenticated (user request) \<Longrightarrow>
   adoption_application pk_of now pet_id request d =
     \<lparr>out_db = d, out_messages = [], out_result = Inr (Redirect site_login)\<rparr>"
  by (simp add: adoption_application_def login_required_def user_passes_test_def)

lemma Pet_available_first_Some:
  "Pet_available_first d k = Some (pid, P) \<Longrightarrow> pid = k \<and> pets d pid = Some P \<and> pet_status P = ''available''"
  by (auto simp: Pet_available_first_def split: option.splits if_splits)

lemma posted_pet_Some:
  "posted_pet pk_of request d = Inr (Some (pid, P)) \<Longrightarrow> pets d pid = Some P \<and> pet_status P = ''available''"
  by (auto simp: posted_pet_def split: option.splits if_splits dest: Pet_available_first_Some)

lemma adoption_body_db:
  "out_db (adoption_application_body pk_of now pet_id request d) = d \<or>
   (\<exists>pid P. pets d pid = Some P \<and> pet_status P = ''available'' \<and> req_method request = ''POST'' \<and>
      out_db (adoption_application_body pk_of now pet_id request d) =
        d\<lparr>applications := (applications d)(next_application_id d \<mapsto>
             application_kwargs (if is_authenticated (user request)
                                 then Some (user_pk (user request)) else None)
               pid request (AdoptionApplication_defaults now)),
          next_application_id := Suc (next_application_id d)\<rparr>)"
proof -
  define pet where "pet = (case pet_id of None \<Rightarrow> None
                           | Some k \<Rightarrow> if k \<noteq> 0 then Pet_available_first d k else None)"
  define found where "found = (case pet of None \<Rightarrow> posted_pet pk_of request d | Some p \<Rightarrow> Inr (Some p))"
  have found_ok: "pets d pid = Some P \<and> pet_status P = ''available''"
    if "found = Inr (Some (pid, P))" for pid P
  proof (cases pet)
    case None
    with that show ?thesis by (simp add: found_def posted_pet_Some)
  next
    case (Some p)
    with that have "pet = Some (pid, P)" by (simp add: found_def)
    then show ?thesis
      by (auto simp: pet_def split: option.splits if_splits dest: Pet_available_first_Some)
  qed
  show ?thesis
  proof (cases found)
    case (Inl e)
    then show ?thesis
      by (simp add: adoption_application_body_def Let_def pet_def [symmetric] found_def [symmetric])
  next
    case (Inr r)
    show ?thesis
    proof (cases r)
      case None
      with Inr show ?thesis
        by (simp add: adoption_application_body_def Let_def pet_def [symmetric] found_def [symmetric])
    next
      case (Some pp)
      obtain pid P where pp: "pp = (pid, P)" by (cases pp)
      from Inr Some pp have f: "found = Inr (Some (pid, P))" by simp
      have eq: "out_db (adoption_application_body pk_of now pet_id request d) = d \<or>
          (req_method request = ''POST'' \<and> out_db (adoption_application_body pk_of now pet_id request d) =
            d\<lparr>applications := (applications d)(next_application_id d \<mapsto>
                 application_kwargs (if is_authenticated (user request)
                                     then Some (user_pk (user request)) else None)
                   pid request (AdoptionApplication_defaults now)),
              next_application_id := Suc (next_application_id d)\<rparr>)"
        using f
        by (simp add: adoption_application_body_def Let_def pet_def [symmetric] found_def [symmetric]
            AdoptionApplication_create_def)
      from found_ok [OF f] eq show ?thesis by blast
    qed
  qed
qed

lemma adoption_db:
  "out_db (adoption_application pk_of now pet_id request d) = d \<or>
   (\<exists>pid P. pets d pid = Some P \<and> pet_status P = ''available'' \<and> req_method request = ''POST'' \<and>
      is_authenticated (user request) \<and>
      out_db (adoption_application pk_of now pet_id request d) =
        d\<lparr>applications := (applications d)(next_application_id d \<mapsto>
             application_kwargs (Some (user_pk (user request)))
               pid request (AdoptionApplication_defaults now)),
          next_application_id := Suc (next_application_id d)\<rparr>)"
proof (cases "is_authenticated (user request)")
  case True
  then show ?thesis
    using adoption_body_db [of pk_of now pet_id request d] by (simp add: adoption_guard_pass)
next
  case False
  then show ?thesis by (simp add: adoption_guard_fail)
qed

lemma submit_url_success:
  assumes "is_authenticated (user request)" "req_method request = ''POST''" "pid \<noteq> 0"
    "pets d pid = Some P" "pet_status P = ''available''"
  shows "adoption_application pk_of now (Some pid) request d =
     \<lparr>out_db = d\<lparr>applications := (applications d)(next_application_id d \<mapsto>
                   application_kwargs (Some (user_pk (user request))) pid request
                     (AdoptionApplication_defaults now)),
                 next_application_id := Suc (next_application_id d)\<rparr>,
      out_messages = [ApplicationSubmitted],
      out_result = Inr (Redirect route_user_applications)\<rparr>"
  using assms
  by (simp add: adoption_guard_pass adoption_application_body_def Pet_available_first_def
      AdoptionApplication_create_def Let_def)

lemma submit_success:
  assumes "is_authenticated (user request)" "req_method request = ''POST''"
    "names_pet pk_of pet_id request pid" "pets d pid = Some P" "pet_status P = ''available''"
  shows "adoption_application pk_of now pet_id request d =
     \<lparr>out_db = d\<lparr>applications := (applications d)(next_application_id d \<mapsto>
                   application_kwargs (Some (user_pk (user request))) pid request
                     (AdoptionApplication_defaults now)),
                 next_application_id := Suc (next_application_id d)\<rparr>,
      out_messages = [ApplicationSubmitted],
      out_result = Inr (Redirect route_user_applications)\<rparr>"
proof (cases "\<exists>k. pet_id = Some k \<and> k \<noteq> 0")
  case True
  with assms(3) have "pet_id = Some pid" "pid \<noteq> 0"
    by (auto simp: names_pet_def Let_def)
  with assms show ?thesis by (simp add: submit_url_success)
next
  case False
  then have none: "(case pet_id of None \<Rightarrow> False | Some k \<Rightarrow> k \<noteq> 0) = False"
    "(case pet_id of None \<Rightarrow> None | Some k \<Rightarrow> if k \<noteq> 0 then Pet_available_first d k else None) = None"
    by (auto split: option.splits)
  from False assms(3) obtain s where s: "POST request ''pet_id'' = Some s" "s \<noteq> []"
      "pk_of s = Some (int pid)"
    by (auto simp: names_pet_def Let_def split: option.splits if_splits)
  with assms(4,5) have found: "posted_pet pk_of request d = Inr (Some (pid, P))"
    by (simp add: posted_pet_def Pet_available_first_def)
  from assms(1,2) show ?thesis
    by (simp add: adoption_guard_pass adoption_application_body_def none found
        AdoptionApplication_create_def Let_def)
qed

lemma submit_pets: "pets (out_db (adoption_application pk_of now pet_id request d)) = pets d"
  using adoption_db [of pk_of now pet_id request d] by auto

lemma run_Nil: "run pk_of d [] = d"
  by (simp add: run_def)

lemma run_Cons: "run pk_of d (x # xs) = run pk_of (step pk_of d x) xs"
  by (simp add: run_def)

subsection \<open>What each staff view can do to the store\<close>




subsection \<open>Completed applications under a write\<close>





subsection \<open>Each request keeps the rule\<close>











subsection \<open>The example store\<close>






section \<open>Status changes\<close>

text \<open>
  C2: for an application \<open>A\<close> with pet \<open>P\<close> and a new status among the four recognised
  ones, the status view leaves \<open>P\<close> with status \<open>adopted\<close> when the new status is
  \<open>completed\<close>, with status \<open>available\<close> when \<open>A\<close> was \<open>completed\<close> and the new status
  is not, and otherwise with the status it had; no other field of \<open>P\<close> changes.
\<close>

theorem set_status_cascade:
  assumes "is_admin_user (user request)" "req_method request = ''POST''"
    "applications d application_id = Some A" "pets d (app_pet A) = Some P"
    "POST request ''status'' = Some new_status" "new_status \<in> set valid_statuses"
  shows "pets (out_db (admin_update_application_status now application_id request d)) (app_pet A) =
     Some (P\<lparr>pet_status :=
       (if new_status = ''completed'' then ''adopted''
        else if app_status A = ''completed'' then ''available''
        else pet_status P)\<rparr>)"
  using assms by (simp add: status_guard_pass status_body_valid)

theorem set_status_cascade_witness:
  "is_admin_user (user (status_request ''completed'')) \<and>
   req_method (status_request ''completed'') = ''POST'' \<and>
   applications luna_db 1 = Some (application_for 1 ''ana@example.com'') \<and>
   pets luna_db (app_pet (application_for 1 ''ana@example.com'')) = Some luna \<and>
   POST (status_request ''completed'') ''status'' = Some ''completed'' \<and>
   ''completed'' \<in> set valid_statuses \<and>
   pets (out_db (admin_update_application_status 9 1 (status_request ''completed'') luna_db)) 1 =
     Some (luna\<lparr>pet_status := ''adopted''\<rparr>)"
  using set_status_cascade [of "status_request ''completed''" luna_db 1
      "application_for 1 ''ana@example.com''" luna "''completed''" 9]
  by (simp add: example_defs is_admin_user_def valid_statuses_def)

text \<open>
  C3: a posted status outside the four recognised ones (or none at all) leaves the store,
  and so the application and its pet, unchanged; the view queues the error message
  \<open>InvalidStatus\<close> and answers with the usual redirect, raising nothing.
\<close>

theorem invalid_status_rejected:
  assumes "is_admin_user (user request)" "req_method request = ''POST''"
    "applications d application_id = Some A"
    "POST request ''status'' \<notin> Some ` set valid_statuses"
  shows "admin_update_application_status now application_id request d =
     \<lparr>out_db = d, out_messages = [InvalidStatus],
      out_result = Inr (status_redirect request application_id)\<rparr>"
  using assms
  by (auto simp: status_guard_pass update_application_status_body_def split: option.splits)

theorem invalid_status_rejected_witness:
  "is_admin_user (user (status_request ''adopted'')) \<and>
   req_method (status_request ''adopted'') = ''POST'' \<and>
   applications luna_db 2 = Some (application_for 1 ''bob@example.com'') \<and>
   POST (status_request ''adopted'') ''status'' \<notin> Some ` set valid_statuses \<and>
   admin_update_application_status 9 2 (status_request ''adopted'') luna_db =
     \<lparr>out_db = luna_db, out_messages = [InvalidStatus],
      out_result = Inr (Redirect route_admin_applications)\<rparr>"
  using invalid_status_rejected [of "status_request ''adopted''" luna_db 2
      "application_for 1 ''bob@example.com''" 9]
  by (simp add: example_defs is_admin_user_def valid_statuses_def status_redirect_def str_of_def)

text \<open>
  C10: a request to the status view whose method is not POST changes nothing in the
  store, queues no message, and is answered with a redirect: the usual one for a staff
  member, the login page for anyone else.
\<close>

theorem status_non_post_no_change:
  assumes "req_method request \<noteq> ''POST''"
  shows "admin_update_application_status now application_id request d =
     \<lparr>out_db = d, out_messages = [],
      out_result = Inr (if is_admin_user (user request)
                        then status_redirect request application_id
                        else Redirect LOGIN_URL)\<rparr>"
  using assms
  by (cases "is_admin_user (user request)")
     (simp_all add: status_guard_pass status_guard_fail update_application_status_body_def)

theorem status_non_post_no_change_witness:
  "req_method (get_request staff) \<noteq> ''POST'' \<and>
   admin_update_application_status 9 1 (get_request staff) luna_db =
     \<lparr>out_db = luna_db, out_messages = [], out_result = Inr (Redirect route_admin_applications)\<rparr>"
  using status_non_post_no_change [of "get_request staff" 9 1 luna_db]
  by (simp add: example_defs is_admin_user_def status_redirect_def str_of_def)

section \<open>Notes\<close>

text \<open>
  C8: the notes view sets the notes of application \<open>A\<close> to the posted text and its
  \<open>reviewed_at\<close> to the current time, and changes nothing else: the other fields of \<open>A\<close>
  (its status among them), every pet and every other application stay as they were.
\<close>

theorem set_notes_frame:
  assumes "is_admin_user (user request)" "req_method request = ''POST''"
    "applications d application_id = Some A"
  shows "admin_update_application_notes now application_id request d =
     \<lparr>out_db = d\<lparr>applications := (applications d)(application_id \<mapsto>
                  A\<lparr>app_notes := POST_get_str request ''notes'' [], reviewed_at := Some now\<rparr>)\<rparr>,
      out_messages = [NotesUpdated],
      out_result = Inr (Redirect (route_admin_application_detail application_id))\<rparr>"
  using assms
  by (simp add: notes_guard_pass update_application_notes_body_def AdoptionApplication_save_def
      POST_get_str_def)

theorem set_notes_frame_witness:
  "is_admin_user (user (notes_request ''called references'')) \<and>
   req_method (notes_request ''called references'') = ''POST'' \<and>
   applications luna_db 1 = Some (application_for 1 ''ana@example.com'') \<and>
   admin_update_application_notes 9 1 (notes_request ''called references'') luna_db =
     \<lparr>out_db = luna_db\<lparr>applications := (applications luna_db)(1 \<mapsto>
         (application_for 1 ''ana@example.com'')\<lparr>app_notes := ''called references'',
                                                 reviewed_at := Some 9\<rparr>)\<rparr>,
      out_messages = [NotesUpdated],
      out_result = Inr (Redirect (route_admin_application_detail 1))\<rparr>"
  using set_notes_frame [of "notes_request ''called references''" luna_db 1
      "application_for 1 ''ana@example.com''" 9]
  by (simp add: example_defs is_admin_user_def POST_get_str_def)

section \<open>Submission\<close>

text \<open>
  C4: a submission by a logged-in user for a pet \<open>P\<close> whose status is not \<open>available\<close>,
  named by the URL or, when the URL names none, by the posted \<open>pet_id\<close>, creates no
  application and leaves the store unchanged; the view queues an error message and
  redirects.
\<close>

theorem submit_unavailable_rejected:
  assumes "is_authenticated (user request)" "pets d pid = Some P" "pet_status P \<noteq> ''available''"
    "(pet_id = Some pid \<and> pid \<noteq> 0) \<or>
     ((pet_id = None \<or> pet_id = Some 0) \<and> req_method request = ''POST'' \<and>
      POST request ''pet_id'' = Some s \<and> s \<noteq> [] \<and> pk_of s = Some (int pid))"
  shows "adoption_application pk_of now pet_id request d =
     \<lparr>out_db = d,
      out_messages = [if pet_id = Some pid \<and> pid \<noteq> 0
                      then PetNotFoundOrUnavailable else SelectValidPet],
      out_result = Inr (Redirect (if pet_id = Some pid \<and> pid \<noteq> 0
                                  then route_pets else route_adoption_application))\<rparr>"
  using assms
  by (auto simp: adoption_guard_pass adoption_application_body_def posted_pet_def
      Pet_available_first_def Let_def)

theorem submit_unavailable_rejected_witness:
  "is_authenticated (user (submit_request adopter ''dee@example.com'')) \<and>
   pets shelter_db 2 = Some rex \<and> pet_status rex \<noteq> ''available'' \<and>
   adoption_application example_pk_of 7 (Some 2) (submit_request adopter ''dee@example.com'') shelter_db =
     \<lparr>out_db = shelter_db, out_messages = [PetNotFoundOrUnavailable],
      out_result = Inr (Redirect route_pets)\<rparr>"
  using submit_unavailable_rejected [of "submit_request adopter ''dee@example.com''" shelter_db 2 rex
      "Some 2" "''2''" example_pk_of 7]
  by (simp add: example_defs)

text \<open>
  C9: every application that the submission view adds to the store has status
  \<open>pending\<close>, \<open>submitted_at\<close> equal to the time of the request, and no \<open>reviewed_at\<close>.
\<close>

theorem new_application_defaults:
  assumes "applications (out_db (adoption_application pk_of now pet_id request d)) pk = Some row"
    "applications d pk \<noteq> Some row"
  shows "app_status row = ''pending'' \<and> submitted_at row = now \<and> reviewed_at row = None"
  using assms adoption_db [of pk_of now pet_id request d]
  by (auto simp: application_kwargs_def AdoptionApplication_defaults_def split: if_splits)

theorem new_application_defaults_witness:
  "applications (out_db (adoption_application example_pk_of 7 (Some 1)
       (submit_request adopter ''dee@example.com'') luna_db)) 3 =
     Some (application_kwargs (Some 2) 1 (submit_request adopter ''dee@example.com'')
             (AdoptionApplication_defaults 7)) \<and>
   applications luna_db 3 \<noteq>
     Some (application_kwargs (Some 2) 1 (submit_request adopter ''dee@example.com'')
             (AdoptionApplication_defaults 7)) \<and>
   app_status (application_kwargs (Some 2) 1 (submit_request adopter ''dee@example.com'')
             (AdoptionApplication_defaults 7)) = ''pending'' \<and>
   submitted_at (application_kwargs (Some 2) 1 (submit_request adopter ''dee@example.com'')
             (AdoptionApplication_defaults 7)) = 7 \<and>
   reviewed_at (application_kwargs (Some 2) 1 (submit_request adopter ''dee@example.com'')
             (AdoptionApplication_defaults 7)) = None"
proof -
  have created:
    "applications (out_db (adoption_application example_pk_of 7 (Some 1)
         (submit_request adopter ''dee@example.com'') luna_db)) 3 =
       Some (application_kwargs (Some 2) 1 (submit_request adopter ''dee@example.com'')
               (AdoptionApplication_defaults 7))"
    by (simp add: submit_url_success [where P = luna] luna_db_def luna_def submit_request_def
        adopter_def)
  have absent: "applications luna_db 3 \<noteq>
      Some (application_kwargs (Some 2) 1 (submit_request adopter ''dee@example.com'')
              (AdoptionApplication_defaults 7))"
    by (simp add: luna_db_def)
  from new_application_defaults [OF created absent] created absent show ?thesis by simp
qed

text \<open>
  C6, as amended: the submission view does not accept anonymous submissions. A request
  with no authenticated user is redirected to the login page and leaves the store
  unchanged; every application the view adds to the store carries the key of the
  authenticated user as its user reference, next to the posted email.
\<close>

theorem submit_requires_login:
  "(\<not> is_authenticated (user request) \<longrightarrow>
      adoption_application pk_of now pet_id request d =
        \<lparr>out_db = d, out_messages = [], out_result = Inr (Redirect site_login)\<rparr>) \<and>
   (\<forall>pk row. applications (out_db (adoption_application pk_of now pet_id request d)) pk = Some row \<and>
       applications d pk \<noteq> Some row \<longrightarrow>
       is_authenticated (user request) \<and> app_user row = Some (user_pk (user request)) \<and>
       email row = POST request ''email'')"
  using adoption_db [of pk_of now pet_id request d]
  by (auto simp: adoption_guard_fail application_kwargs_def split: if_splits)

theorem submit_requires_login_witness:
  "\<not> is_authenticated (user (submit_request anonymous ''dee@example.com'')) \<and>
   adoption_application example_pk_of 7 (Some 1) (submit_request anonymous ''dee@example.com'') luna_db =
     \<lparr>out_db = luna_db, out_messages = [], out_result = Inr (Redirect site_login)\<rparr>"
  using submit_requires_login [of "submit_request anonymous ''dee@example.com''" example_pk_of 7
      "Some 1" luna_db]
  by (simp add: submit_request_def anonymous_def)

text \<open>
  C6 as stated fails: the anonymous submission for the available pet Luna is sent to the
  login page and nothing is stored, and no request without an authenticated user changes
  the store.
\<close>

theorem anonymous_submit_counterexample:
  "adoption_application example_pk_of 7 (Some 1) (submit_request anonymous ''dee@example.com'') luna_db =
     \<lparr>out_db = luna_db, out_messages = [], out_result = Inr (Redirect site_login)\<rparr> \<and>
   \<not> (\<exists>pk_of now pet_id request d.
         \<not> is_authenticated (user request) \<and>
         out_db (adoption_application pk_of now pet_id request d) \<noteq> d)"
  by (auto simp: adoption_guard_fail submit_request_def anonymous_def)

text \<open>
  C7: no request to the submission view, successful or not, changes any pet row. After
  any number of successful submissions for the available pet \<open>P\<close>, whether each names \<open>P\<close>
  in the URL or in the posted form, every pet row (that of \<open>P\<close> included, still
  \<open>available\<close>) is as before, the applications already stored are as before, and each
  submission has its own row, under its own key, referring to \<open>P\<close>.
\<close>

theorem submit_keeps_pet:
  assumes "pets d pid = Some P" "pet_status P = ''available''"
    "\<forall>(now, pet_id, request) \<in> set reqs.
       is_authenticated (user request) \<and> req_method request = ''POST'' \<and>
       names_pet pk_of pet_id request pid"
  shows "pets (out_db (adoption_application pk_of now' pet_id' request' d')) = pets d' \<and>
    pets (run pk_of d (map (\<lambda>(now, pet_id, request). Submit now pet_id request) reqs)) = pets d \<and>
    next_application_id (run pk_of d (map (\<lambda>(now, pet_id, request). Submit now pet_id request) reqs)) =
      next_application_id d + length reqs \<and>
    (\<forall>k < next_application_id d.
       applications (run pk_of d (map (\<lambda>(now, pet_id, request). Submit now pet_id request) reqs)) k =
         applications d k) \<and>
    (\<forall>i < length reqs.
       applications (run pk_of d (map (\<lambda>(now, pet_id, request). Submit now pet_id request) reqs))
           (next_application_id d + i) =
         Some (application_kwargs (Some (user_pk (user (snd (snd (reqs ! i)))))) pid
                 (snd (snd (reqs ! i))) (AdoptionApplication_defaults (fst (reqs ! i)))))"
proof (rule conjI [OF submit_pets])
  let ?ops = "\<lambda>reqs. map (\<lambda>(now, pet_id, request). Submit now pet_id request) reqs"
  show "pets (run pk_of d (?ops reqs)) = pets d \<and>
    next_application_id (run pk_of d (?ops reqs)) = next_application_id d + length reqs \<and>
    (\<forall>k < next_application_id d. applications (run pk_of d (?ops reqs)) k = applications d k) \<and>
    (\<forall>i < length reqs.
       applications (run pk_of d (?ops reqs)) (next_application_id d + i) =
         Some (application_kwargs (Some (user_pk (user (snd (snd (reqs ! i)))))) pid
                 (snd (snd (reqs ! i))) (AdoptionApplication_defaults (fst (reqs ! i)))))"
    using assms
  proof (induction reqs arbitrary: d)
    case Nil
    then show ?case by (simp add: run_Nil)
  next
    case (Cons r reqs)
    obtain now pet_id request where r: "r = (now, pet_id, request)" by (cases r)
    let ?row = "application_kwargs (Some (user_pk (user request))) pid request
                  (AdoptionApplication_defaults now)"
    let ?d1 = "d\<lparr>applications := (applications d)(next_application_id d \<mapsto> ?row),
                 next_application_id := Suc (next_application_id d)\<rparr>"
    from Cons.prems r have auth: "is_authenticated (user request)"
      and post: "req_method request = ''POST''" and names: "names_pet pk_of pet_id request pid"
      by simp_all
    have step1: "step pk_of d (Submit now pet_id request) = ?d1"
      using submit_success [OF auth post names Cons.prems(1) Cons.prems(2)] by simp
    have rest: "\<forall>(now, pet_id, request) \<in> set reqs.
        is_authenticated (user request) \<and> req_method request = ''POST'' \<and>
        names_pet pk_of pet_id request pid"
      using Cons.prems(3) by simp
    have pets1: "pets ?d1 pid = Some P" using Cons.prems(1) by simp
    note IH = Cons.IH [OF pets1 Cons.prems(2) rest]
    let ?d' = "run pk_of ?d1 (?ops reqs)"
    have run_eq: "run pk_of d (?ops (r # reqs)) = ?d'"
      by (simp add: run_Cons r step1 del: step.simps)
    from IH have a: "pets ?d' = pets d" by simp
    from IH have b: "next_application_id ?d' = next_application_id d + length (r # reqs)" by simp
    from IH have old: "\<forall>k < Suc (next_application_id d). applications ?d' k = applications ?d1 k"
      by simp
    have c: "\<forall>k < next_application_id d. applications ?d' k = applications d k"
      using old by simp
    from IH have new: "\<forall>i < length reqs. applications ?d' (Suc (next_application_id d) + i) =
        Some (application_kwargs (Some (user_pk (user (snd (snd (reqs ! i)))))) pid
                (snd (snd (reqs ! i))) (AdoptionApplication_defaults (fst (reqs ! i))))"
      by simp
    have e: "applications ?d' (next_application_id d + i) =
        Some (application_kwargs (Some (user_pk (user (snd (snd ((r # reqs) ! i)))))) pid
                (snd (snd ((r # reqs) ! i))) (AdoptionApplication_defaults (fst ((r # reqs) ! i))))"
      if "i < length (r # reqs)" for i
    proof (cases i)
      case 0
      then show ?thesis using old by (simp add: r)
    next
      case (Suc j)
      with that have "j < length reqs" by simp
      with new Suc show ?thesis by simp
    qed
    show ?case unfolding run_eq using a b c e by blast
  qed
qed

theorem submit_keeps_pet_witness:
  "pets luna_db 1 = Some luna \<and> pet_status luna = ''available'' \<and>
   is_authenticated (user (submit_request adopter ''dee@example.com'')) \<and>
   req_method (submit_request adopter ''dee@example.com'') = ''POST'' \<and>
   names_pet example_pk_of (Some 1) (submit_request adopter ''dee@example.com'') 1 \<and>
   is_authenticated (user (form_request staff ''eli@example.com'' ''1'')) \<and>
   req_method (form_request staff ''eli@example.com'' ''1'') = ''POST'' \<and>
   names_pet example_pk_of None (form_request staff ''eli@example.com'' ''1'') 1 \<and>
   pets (run example_pk_of luna_db
           [Submit 7 (Some 1) (submit_request adopter ''dee@example.com''),
            Submit 8 None (form_request staff ''eli@example.com'' ''1'')]) 1 = Some luna \<and>
   map_option app_pet (applications (run example_pk_of luna_db
           [Submit 7 (Some 1) (submit_request adopter ''dee@example.com''),
            Submit 8 None (form_request staff ''eli@example.com'' ''1'')]) 3) = Some 1 \<and>
   map_option app_pet (applications (run example_pk_of luna_db
           [Submit 7 (Some 1) (submit_request adopter ''dee@example.com''),
            Submit 8 None (form_request staff ''eli@example.com'' ''1'')]) 4) = Some 1 \<and>
   map_option email (applications (run example_pk_of luna_db
           [Submit 7 (Some 1) (submit_request adopter ''dee@example.com''),
            Submit 8 None (form_request staff ''eli@example.com'' ''1'')]) 4) =
     Some (Some ''eli@example.com'') \<and>
   applications (run example_pk_of luna_db
           [Submit 7 (Some 1) (submit_request adopter ''dee@example.com''),
            Submit 8 None (form_request staff ''eli@example.com'' ''1'')]) 1 = applications luna_db 1"
proof -
  let ?reqs = "[(7, Some 1, submit_request adopter ''dee@example.com''),
                (8, None, form_request staff ''eli@example.com'' ''1'')]"
  have h1: "pets luna_db 1 = Some luna" by (simp add: luna_db_def)
  have h2: "pet_status luna = ''available''" by (simp add: luna_def)
  have h3: "\<forall>(now, pet_id, request) \<in> set ?reqs.
      is_authenticated (user request) \<and> req_method request = ''POST'' \<and>
      names_pet example_pk_of pet_id request 1"
    by (simp add: submit_request_def form_request_def adopter_def staff_def names_pet_def
        example_pk_of_def Let_def)
  have n: "next_application_id luna_db = 3" by (simp add: luna_db_def)
  from submit_keeps_pet [OF h1 h2 h3] n h1 h2 h3
  show ?thesis
    by (simp add: application_kwargs_def nth_Cons' All_less_Suc numeral_eq_Suc form_request_def)
qed

section \<open>Repeating a completion\<close>

text \<open>
  C5, as amended: completing the same application twice leaves the pet, the status of
  the application and the rest of the store as one completion does, but not the whole
  application: \<open>reviewed_at\<close> is set again, to the time of the second request. The
  store after both requests is the store a single request at that second time gives.
\<close>

theorem set_status_completed_twice:
  assumes "is_admin_user (user request)" "req_method request = ''POST''"
    "POST request ''status'' = Some ''completed''"
    "applications d application_id = Some A" "pets d (app_pet A) = Some P"
  shows "let once = out_db (admin_update_application_status t1 application_id request d);
             twice = out_db (admin_update_application_status t2 application_id request once)
         in pets twice = pets once \<and>
            pets once (app_pet A) = Some (P\<lparr>pet_status := ''adopted''\<rparr>) \<and>
            next_application_id twice = next_application_id once \<and>
            (\<forall>k. k \<noteq> application_id \<longrightarrow> applications twice k = applications once k) \<and>
            applications once application_id =
              Some (A\<lparr>app_status := ''completed'', reviewed_at := Some t1\<rparr>) \<and>
            applications twice application_id =
              Some (A\<lparr>app_status := ''completed'', reviewed_at := Some t2\<rparr>) \<and>
            twice = out_db (admin_update_application_status t2 application_id request d)"
proof -
  let ?A1 = "A\<lparr>app_status := ''completed'', reviewed_at := Some t1\<rparr>"
  let ?P1 = "P\<lparr>pet_status := ''adopted''\<rparr>"
  let ?once = "d\<lparr>applications := (applications d)(application_id \<mapsto> ?A1),
                 pets := (pets d)(app_pet A \<mapsto> ?P1)\<rparr>"
  have valid: "''completed'' \<in> set valid_statuses" by (simp add: valid_statuses_def)
  have once: "out_db (admin_update_application_status t1 application_id request d) = ?once"
    using assms valid by (simp add: status_guard_pass status_body_valid)
  have direct: "out_db (admin_update_application_status t2 application_id request d) =
      d\<lparr>applications := (applications d)(application_id \<mapsto>
            A\<lparr>app_status := ''completed'', reviewed_at := Some t2\<rparr>),
        pets := (pets d)(app_pet A \<mapsto> ?P1)\<rparr>"
    using assms valid by (simp add: status_guard_pass status_body_valid)
  have a1: "applications ?once application_id = Some ?A1" by simp
  have p1: "pets ?once (app_pet ?A1) = Some ?P1" by simp
  have twice: "out_db (admin_update_application_status t2 application_id request ?once) =
      d\<lparr>applications := (applications d)(application_id \<mapsto>
            A\<lparr>app_status := ''completed'', reviewed_at := Some t2\<rparr>),
        pets := (pets d)(app_pet A \<mapsto> ?P1)\<rparr>"
    using assms(1,2,3) valid
    by (simp add: status_guard_pass status_body_valid [OF assms(2) a1 assms(3) valid p1])
  show ?thesis
    unfolding Let_def once twice direct by simp
qed

theorem set_status_completed_twice_witness:
  "is_admin_user (user (status_request ''completed'')) \<and>
   req_method (status_request ''completed'') = ''POST'' \<and>
   POST (status_request ''completed'') ''status'' = Some ''completed'' \<and>
   applications luna_db 1 = Some (application_for 1 ''ana@example.com'') \<and>
   pets luna_db (app_pet (application_for 1 ''ana@example.com'')) = Some luna \<and>
   out_db (admin_update_application_status 20 1 (status_request ''completed'')
     (out_db (admin_update_application_status 10 1 (status_request ''completed'') luna_db))) =
   out_db (admin_update_application_status 20 1 (status_request ''completed'') luna_db) \<and>
   pets (out_db (admin_update_application_status 20 1 (status_request ''completed'')
     (out_db (admin_update_application_status 10 1 (status_request ''completed'') luna_db)))) =
   pets (out_db (admin_update_application_status 10 1 (status_request ''completed'') luna_db))"
proof -
  have h1: "is_admin_user (user (status_request ''completed''))"
    by (simp add: status_request_def staff_def is_admin_user_def)
  have h2: "req_method (status_request ''completed'') = ''POST''" by (simp add: status_request_def)
  have h3: "POST (status_request ''completed'') ''status'' = Some ''completed''"
    by (simp add: status_request_def)
  have h4: "applications luna_db 1 = Some (application_for 1 ''ana@example.com'')"
    by (simp add: luna_db_def)
  have h5: "pets luna_db (app_pet (application_for 1 ''ana@example.com'')) = Some luna"
    by (simp add: luna_db_def application_for_def)
  note main = set_status_completed_twice [OF h1 h2 h3 h4 h5, of 10 20, unfolded Let_def]
  from main have e1:
    "pets (out_db (admin_update_application_status 20 1 (status_request ''completed'')
       (out_db (admin_update_application_status 10 1 (status_request ''completed'') luna_db)))) =
     pets (out_db (admin_update_application_status 10 1 (status_request ''completed'') luna_db))"
    by (rule conjunct1)
  from main have e2:
    "out_db (admin_update_application_status 20 1 (status_request ''completed'')
       (out_db (admin_update_application_status 10 1 (status_request ''completed'') luna_db))) =
     out_db (admin_update_application_status 20 1 (status_request ''completed'') luna_db)"
    by (elim conjE)
  from h1 h2 h3 h4 h5 e1 e2 show ?thesis by (intro conjI)
qed

text \<open>
  C5 as stated fails: completing application 1 at time 10 and again at time 20 leaves
  \<open>reviewed_at = 20\<close>, where the single completion left \<open>reviewed_at = 10\<close>.
\<close>

theorem set_status_twice_counterexample:
  "map_option reviewed_at (applications
     (out_db (admin_update_application_status 10 1 (status_request ''completed'') luna_db)) 1) =
     Some (Some 10) \<and>
   map_option reviewed_at (applications
     (out_db (admin_update_application_status 20 1 (status_request ''completed'')
       (out_db (admin_update_application_status 10 1 (status_request ''completed'') luna_db)))) 1) =
     Some (Some 20)"
  by (simp add: admin_update_application_status_def login_required_def
  user_passes_test_def is_admin_user_def update_application_status_body_def valid_statuses_def
  AdoptionApplication_save_def set_pet_status_def Pet_save_def Let_def example_defs)

section \<open>The pet rule along runs\<close>




end
